theory Spec2Isabelle
  imports Main "HOL-Library.Word"
begin

section \<open>Data of imv.c\<close>

text \<open>
  The orchestrator of the image viewer, \<^verbatim>\<open>src/imv.c\<close>, embedded function by function.
  \<^verbatim>\<open>unsigned int\<close> and \<^verbatim>\<open>int\<close> are 32-bit words, \<^verbatim>\<open>unsigned long\<close>, \<^verbatim>\<open>long\<close> and
  \<^verbatim>\<open>size_t\<close> are 64-bit words (LP64); a pointer that may be \<^verbatim>\<open>NULL\<close> is an option.
  Calls that leave the orchestrating thread (detached threads, \<^verbatim>\<open>free\<close> of a source,
  release of a bitmap, calls of a backend's function pointers) are appended to the
  field \<open>trace\<close>; events posted with \<^verbatim>\<open>SDL_PushEvent\<close> are appended to \<open>sdl_queue\<close>.
  Logging, rendering, window titles and environment variables are not modelled.
\<close>

datatype scaling_mode = SCALING_NONE | SCALING_DOWN | SCALING_FULL

datatype resize_mode = RESIZE_NONE | RESIZE_ONLY | RESIZE_CENTER

text \<open>\<^verbatim>\<open>struct imv_bitmap\<close>: the identity of the allocation and the two fields imv.c reads.\<close>

record imv_bitmap =
  bitmap_id :: nat
  width :: int
  height :: int

text \<open>
  \<^verbatim>\<open>struct imv_source\<close>: the identity of the decode session (its address) and whether its
  \<^verbatim>\<open>load_next_frame\<close> function pointer is set. A backend sets that pointer once, when it
  creates the source, so two records of the same source are equal and the comparison of
  two pointers is the comparison of the records.
\<close>

record imv_source =
  source_id :: nat
  load_next_frame :: bool

text \<open>
  Modelled from the spec: \<^verbatim>\<open>backend.h\<close> is not among the sources. imv.c names the results
  \<^verbatim>\<open>BACKEND_SUCCESS\<close> and \<^verbatim>\<open>BACKEND_UNSUPPORTED\<close> and treats every other value as a failure
  that ends the search; \<open>BACKEND_OTHER\<close> stands for any such value.
\<close>

datatype backend_result = BACKEND_SUCCESS | BACKEND_UNSUPPORTED | BACKEND_OTHER

type_synonym stdin_data = "8 word list option"

text \<open>
  \<^verbatim>\<open>struct imv_backend\<close>: the two optional capabilities are function pointers; each returns
  its result and the source it stored through the out parameter.
\<close>

record imv_backend =
  backend_name :: string
  open_path :: "(string \<Rightarrow> backend_result \<times> imv_source) option"
  open_memory :: "(stdin_data \<Rightarrow> backend_result \<times> imv_source) option"

datatype effect =
    AsyncFreeSource imv_source
  | AsyncLoadFirstFrame imv_source
  | AsyncLoadNextFrame imv_source
  | SourceFree imv_source
  | BitmapFree imv_bitmap
  | StdinDataFree
  | OpenPath string string
  | OpenMemory string

datatype imv_event = NEW_IMAGE imv_bitmap "32 word" bool | BAD_IMAGE

record imv_source_message =
  msg_source :: imv_source
  msg_bitmap :: "imv_bitmap option"
  msg_frametime :: "32 word"

subsection \<open>Navigator\<close>

text \<open>
  Modelled from the spec: \<^verbatim>\<open>navigator.c\<close> is not among the sources. The Navigator holds an
  ordered sequence of paths (no deduplication), a selection index, a one-shot changed
  flag and a wrapped flag.
\<close>

record imv_navigator =
  paths :: "string list"
  cur_path :: nat
  changed :: bool
  wrapped :: bool

definition imv_navigator_create :: imv_navigator where
  "imv_navigator_create = \<lparr>paths = [], cur_path = 0, changed = False, wrapped = False\<rparr>"

definition imv_navigator_length :: "imv_navigator \<Rightarrow> nat" where
  "imv_navigator_length nav = length (paths nav)"

definition imv_navigator_wrapped :: "imv_navigator \<Rightarrow> bool" where
  "imv_navigator_wrapped nav = wrapped nav"

text \<open>
  Modelled from the spec: \<open>selection()\<close> is the current path, or the empty sentinel if the
  list is empty.
\<close>

definition imv_navigator_selection :: "imv_navigator \<Rightarrow> string" where
  "imv_navigator_selection nav =
     (if cur_path nav < length (paths nav) then paths nav ! cur_path nav else [])"

text \<open>
  Modelled from the spec: \<open>poll_changed()\<close> is edge-triggered, returns true at most once per
  mutation and then false until the next, and never fires on the empty list.
\<close>

definition imv_navigator_poll_changed :: "imv_navigator \<Rightarrow> bool \<times> imv_navigator" where
  "imv_navigator_poll_changed nav =
     (if changed nav then (paths nav \<noteq> [], nav\<lparr>changed := False\<rparr>) else (False, nav))"

fun find_path :: "string list \<Rightarrow> string \<Rightarrow> nat option" where
  "find_path [] p = None"
| "find_path (x # xs) p = (if x = p then Some 0 else map_option Suc (find_path xs p))"

fun remove_at :: "'a list \<Rightarrow> nat \<Rightarrow> 'a list" where
  "remove_at [] i = []"
| "remove_at (x # xs) 0 = xs"
| "remove_at (x # xs) (Suc i) = x # remove_at xs i"

text \<open>
  Modelled from the spec: \<open>remove(path)\<close> removes the first matching entry; if it was
  selected, the selection advances to the next remaining entry (the one that now has the
  same index, wrapping to the first and setting the wrapped flag when there is none) and
  the changed flag is set. An entry removed before the selection shifts the index so that
  the selected path stays selected.
\<close>

definition imv_navigator_remove :: "imv_navigator \<Rightarrow> string \<Rightarrow> imv_navigator" where
  "imv_navigator_remove nav p =
     (case find_path (paths nav) p of
        None \<Rightarrow> nav
      | Some i \<Rightarrow>
          let ps = remove_at (paths nav) i in
          if i = cur_path nav then
            (if length ps \<le> i
               then nav\<lparr>paths := ps, cur_path := 0, changed := True, wrapped := True\<rparr>
               else nav\<lparr>paths := ps, changed := True\<rparr>)
          else if i < cur_path nav then nav\<lparr>paths := ps, cur_path := cur_path nav - 1\<rparr>
          else nav\<lparr>paths := ps\<rparr>)"

text \<open>
  Modelled from the spec: \<open>select_relative(delta)\<close> moves the cursor by \<open>delta\<close>, wrapping
  modulo the list length; it sets the wrapped flag when the move crosses a boundary and
  the changed flag only if the resulting selection differs from the previous one.
\<close>

definition imv_navigator_select_rel :: "imv_navigator \<Rightarrow> int \<Rightarrow> imv_navigator" where
  "imv_navigator_select_rel nav delta =
     (if paths nav = [] then nav
      else
        let n = int (length (paths nav));
            raw = int (cur_path nav) + delta;
            new = nat (raw mod n)
        in nav\<lparr>cur_path := new,
               changed := (changed nav \<or> new \<noteq> cur_path nav),
               wrapped := (wrapped nav \<or> raw < 0 \<or> n \<le> raw)\<rparr>)"

text \<open>Modelled from the spec: \<open>add(path)\<close> appends the path (directory expansion left out).\<close>

definition imv_navigator_add :: "imv_navigator \<Rightarrow> string \<Rightarrow> imv_navigator" where
  "imv_navigator_add nav p =
     nav\<lparr>paths := paths nav @ [p], changed := (changed nav \<or> paths nav = [])\<rparr>"

subsection \<open>The state of the viewer\<close>

text \<open>
  \<^verbatim>\<open>struct imv\<close>, with the fields the embedded functions touch. \<open>imv_image\<close> is the bitmap last
  handed to \<^verbatim>\<open>imv_image_set_bitmap\<close>; \<open>view_playing\<close> is the viewport's playing flag
  (\<^verbatim>\<open>imv_viewport_set_playing\<close>, \<^verbatim>\<open>imv_viewport_is_playing\<close>).
\<close>

record imv =
  quit :: bool
  loading :: bool
  need_redraw :: bool
  need_rescale :: bool
  need_resize :: bool
  resize_mode :: resize_mode
  loop_input :: bool
  paths_from_stdin :: bool
  scaling_mode :: scaling_mode
  slideshow_image_duration :: "64 word"
  slideshow_time_elapsed :: "64 word"
  next_frame_due :: "32 word"
  next_frame_duration :: "32 word"
  next_frame :: "imv_bitmap option"
  navigator :: imv_navigator
  backends :: "imv_backend list"
  source :: "imv_source option"
  last_source :: "imv_source option"
  imv_image :: "imv_bitmap option"
  view_playing :: bool
  stdin_image_data :: stdin_data
  current_image_width :: int
  current_image_height :: int
  sdl_queue :: "imv_event list"
  trace :: "effect list"

text \<open>\<^verbatim>\<open>imv_create\<close>: \<^verbatim>\<open>calloc\<close> zeroes the structure, then the defaults are set.\<close>

definition imv_create :: imv where
  "imv_create =
     \<lparr>quit = False, loading = False, need_redraw = True, need_rescale = True,
      need_resize = False, resize_mode = RESIZE_NONE, loop_input = True,
      paths_from_stdin = False, scaling_mode = SCALING_FULL,
      slideshow_image_duration = 0, slideshow_time_elapsed = 0,
      next_frame_due = 0, next_frame_duration = 0, next_frame = None,
      navigator = imv_navigator_create, backends = [], source = None,
      last_source = None, imv_image = None, view_playing = False,
      stdin_image_data = None, current_image_width = 0, current_image_height = 0,
      sdl_queue = [], trace = []\<rparr>"

section \<open>Commands\<close>

text \<open>
  \<^verbatim>\<open>imv->scaling_mode++; imv->scaling_mode %= SCALING_MODE_COUNT;\<close> works on the
  enumeration's integer values; \<^verbatim>\<open>SCALING_MODE_COUNT\<close> is 3.
\<close>

fun scaling_mode_value :: "scaling_mode \<Rightarrow> nat" where
  "scaling_mode_value SCALING_NONE = 0"
| "scaling_mode_value SCALING_DOWN = 1"
| "scaling_mode_value SCALING_FULL = 2"

definition SCALING_MODE_COUNT :: nat where
  "SCALING_MODE_COUNT = 3"

definition scaling_mode_of_value :: "nat \<Rightarrow> scaling_mode" where
  "scaling_mode_of_value v =
     (if v = 0 then SCALING_NONE else if v = 1 then SCALING_DOWN else SCALING_FULL)"

definition command_set_scaling_mode :: "string list \<Rightarrow> imv \<Rightarrow> imv" where
  "command_set_scaling_mode args st =
     (if length args \<noteq> 2 then st
      else
        let mode = args ! 1 in
        if mode = ''next'' then
          st\<lparr>scaling_mode :=
                scaling_mode_of_value
                  ((scaling_mode_value (scaling_mode st) + 1) mod SCALING_MODE_COUNT),
             need_rescale := True, need_redraw := True\<rparr>
        else if mode = ''none'' then
          st\<lparr>scaling_mode := SCALING_NONE, need_rescale := True, need_redraw := True\<rparr>
        else if mode = ''shrink'' then
          st\<lparr>scaling_mode := SCALING_DOWN, need_rescale := True, need_redraw := True\<rparr>
        else if mode = ''full'' then
          st\<lparr>scaling_mode := SCALING_FULL, need_rescale := True, need_redraw := True\<rparr>
        else st)"

text \<open>\<^verbatim>\<open>labs\<close> on a 64-bit \<^verbatim>\<open>long\<close>.\<close>

definition labs :: "64 word \<Rightarrow> 64 word" where
  "labs x = (if sint x < 0 then - x else x)"

text \<open>
  \<^verbatim>\<open>command_set_slideshow_duration\<close>. \<open>strtol\<close> is the C library's parser, a parameter here.
  \<^verbatim>\<open>delta\<close> is a \<^verbatim>\<open>long\<close>, the duration an \<^verbatim>\<open>unsigned long\<close>; the comparison is made on
  \<^verbatim>\<open>size_t\<close>, and \<^verbatim>\<open>+=\<close> converts \<^verbatim>\<open>delta\<close> to \<^verbatim>\<open>unsigned long\<close> and wraps modulo \<open>2 ^ 64\<close>.
\<close>

definition command_set_slideshow_duration ::
  "(string \<Rightarrow> 64 word) \<Rightarrow> string list \<Rightarrow> imv \<Rightarrow> imv" where
  "command_set_slideshow_duration strtol args st =
     (if length args = 2 then
        let delta = 1000 * strtol (args ! 1) in
        (if sint delta < 0 \<and> slideshow_image_duration st < labs delta
           then st\<lparr>slideshow_image_duration := 0\<rparr>
           else st\<lparr>slideshow_image_duration := slideshow_image_duration st + delta\<rparr>)
          \<lparr>need_redraw := True\<rparr>
      else st)"

section \<open>Sources and backends\<close>

text \<open>
  \<^verbatim>\<open>async_free_source\<close>, \<^verbatim>\<open>async_load_first_frame\<close> and \<^verbatim>\<open>async_load_next_frame\<close> create a
  detached thread that runs the source's function; the orchestrator does not join it.
\<close>

definition async_free_source :: "imv_source \<Rightarrow> imv \<Rightarrow> imv" where
  "async_free_source src st = st\<lparr>trace := trace st @ [AsyncFreeSource src]\<rparr>"

definition async_load_first_frame :: "imv_source \<Rightarrow> imv \<Rightarrow> imv" where
  "async_load_first_frame src st = st\<lparr>trace := trace st @ [AsyncLoadFirstFrame src]\<rparr>"

definition async_load_next_frame :: "imv_source \<Rightarrow> imv \<Rightarrow> imv" where
  "async_load_next_frame src st = st\<lparr>trace := trace st @ [AsyncLoadNextFrame src]\<rparr>"

definition imv_bitmap_free :: "imv_bitmap \<Rightarrow> imv \<Rightarrow> imv" where
  "imv_bitmap_free b st = st\<lparr>trace := trace st @ [BitmapFree b]\<rparr>"

text \<open>
  \<^verbatim>\<open>source_callback\<close>: called by a source, on its own thread, with the result of a load.
  \<^verbatim>\<open>msg->user_data\<close> is the viewer's state.
\<close>

definition source_callback :: "imv_source_message \<Rightarrow> imv \<Rightarrow> imv" where
  "source_callback msg st =
     (if Some (msg_source msg) \<noteq> source st then
        (case msg_bitmap msg of
           Some b \<Rightarrow> imv_bitmap_free b st
         | None \<Rightarrow> st)
      else
        (case msg_bitmap msg of
           Some b \<Rightarrow>
             st\<lparr>last_source := Some (msg_source msg),
                sdl_queue := sdl_queue st @
                  [NEW_IMAGE b (msg_frametime msg) (Some (msg_source msg) \<noteq> last_source st)]\<rparr>
         | None \<Rightarrow> st\<lparr>sdl_queue := sdl_queue st @ [BAD_IMAGE]\<rparr>))"

text \<open>
  \<^verbatim>\<open>imv_free\<close> destroys the viewer; what is left of it is the list of calls it made. The
  source's \<^verbatim>\<open>free\<close> is called directly, on the calling thread.
\<close>

definition imv_free :: "imv \<Rightarrow> effect list" where
  "imv_free st =
     trace st
     @ (case source st of Some src \<Rightarrow> [SourceFree src] | None \<Rightarrow> [])
     @ (case next_frame st of Some b \<Rightarrow> [BitmapFree b] | None \<Rightarrow> [])
     @ (case stdin_image_data st of Some d \<Rightarrow> [StdinDataFree] | None \<Rightarrow> [])"

text \<open>\<^verbatim>\<open>imv_install_backend\<close> links the new descriptor in front of the chain.\<close>

definition imv_install_backend :: "imv \<Rightarrow> imv_backend \<Rightarrow> imv" where
  "imv_install_backend st backend = st\<lparr>backends := backend # backends st\<rparr>"

text \<open>
  One backend of the chain, for the current input: \<open>None\<close> when the capability the input
  needs is a null pointer, otherwise what the call returned and the call itself.
\<close>

definition probe ::
  "bool \<Rightarrow> string \<Rightarrow> stdin_data \<Rightarrow> imv_backend \<Rightarrow> ((backend_result \<times> imv_source) \<times> effect) option"
  where
  "probe path_is_stdin current_path data backend =
     (if path_is_stdin then
        (case open_memory backend of
           None \<Rightarrow> None
         | Some f \<Rightarrow> Some (f data, OpenMemory (backend_name backend)))
      else
        (case open_path backend of
           None \<Rightarrow> None
         | Some f \<Rightarrow> Some (f current_path, OpenPath (backend_name backend) current_path)))"

text \<open>
  The \<^verbatim>\<open>for\<close> loop over the chain in \<^verbatim>\<open>imv_run\<close>, with its two locals \<^verbatim>\<open>result\<close> and
  \<^verbatim>\<open>new_source\<close>; the third component lists the calls made, in order.
\<close>

fun backend_loop ::
  "imv_backend list \<Rightarrow> bool \<Rightarrow> string \<Rightarrow> stdin_data \<Rightarrow> backend_result \<Rightarrow> imv_source option
     \<Rightarrow> backend_result \<times> imv_source option \<times> effect list"
  where
  "backend_loop [] path_is_stdin current_path data result new_source =
     (result, new_source, [])"
| "backend_loop (backend # chain) path_is_stdin current_path data result new_source =
     (case probe path_is_stdin current_path data backend of
        None \<Rightarrow> backend_loop chain path_is_stdin current_path data result new_source
      | Some ((r, s), call) \<Rightarrow>
          if r = BACKEND_UNSUPPORTED then
            (case backend_loop chain path_is_stdin current_path data r (Some s) of
               (r', s', calls) \<Rightarrow> (r', s', call # calls))
          else (r, Some s, [call]))"

text \<open>
  The registry as the spec words it, written without the loop's own helper: the answer of
  a descriptor is that of \<open>open_memory\<close> when the input is the data from stdin and that of
  \<open>open_path\<close> when it is a path, and there is none when that function is absent; the
  descriptors are taken most recently registered first, those without an answer are
  skipped, and the first answer that is not Unsupported is the result.
\<close>

definition spec_answer ::
  "bool \<Rightarrow> string \<Rightarrow> stdin_data \<Rightarrow> imv_backend \<Rightarrow> (backend_result \<times> imv_source) option"
  where
  "spec_answer input_is_stdin path data backend =
     (if input_is_stdin then map_option (\<lambda>f. f data) (open_memory backend)
      else map_option (\<lambda>f. f path) (open_path backend))"

definition spec_call :: "bool \<Rightarrow> string \<Rightarrow> imv_backend \<Rightarrow> effect" where
  "spec_call input_is_stdin path backend =
     (if input_is_stdin then OpenMemory (backend_name backend)
      else OpenPath (backend_name backend) path)"

definition resolve_spec ::
  "imv_backend list \<Rightarrow> bool \<Rightarrow> string \<Rightarrow> stdin_data \<Rightarrow> (backend_result \<times> imv_source) option"
  where
  "resolve_spec registered input_is_stdin path data =
     List.find (\<lambda>a. fst a \<noteq> BACKEND_UNSUPPORTED)
       (List.map_filter (spec_answer input_is_stdin path data) (rev registered))"

text \<open>The calls the spec's order predicts for a list of descriptors in trial order: every
  capable descriptor up to the first answer that is not Unsupported, that one included.\<close>

fun probed_spec :: "bool \<Rightarrow> string \<Rightarrow> stdin_data \<Rightarrow> imv_backend list \<Rightarrow> effect list" where
  "probed_spec input_is_stdin path data [] = []"
| "probed_spec input_is_stdin path data (backend # rest) =
     (case spec_answer input_is_stdin path data backend of
        None \<Rightarrow> probed_spec input_is_stdin path data rest
      | Some a \<Rightarrow>
          if fst a = BACKEND_UNSUPPORTED
          then spec_call input_is_stdin path backend # probed_spec input_is_stdin path data rest
          else [spec_call input_is_stdin path backend])"

section \<open>The run loop\<close>

text \<open>The body of \<^verbatim>\<open>while (imv_navigator_poll_changed(imv->navigator))\<close>.\<close>

definition load_selection :: "imv \<Rightarrow> imv" where
  "load_selection st =
     (let current_path = imv_navigator_selection (navigator st) in
      if current_path \<noteq> [] then
        (case backend_loop (backends st) (current_path = ''-'') current_path
                (stdin_image_data st) BACKEND_UNSUPPORTED None of
           (result, new_source, calls) \<Rightarrow>
             let st1 = st\<lparr>trace := trace st @ calls\<rparr> in
             if result = BACKEND_SUCCESS then
               let st2 = (case source st1 of
                            Some old \<Rightarrow> async_free_source old st1
                          | None \<Rightarrow> st1);
                   st3 = st2\<lparr>source := new_source\<rparr>;
                   st4 = (case source st3 of
                            Some src \<Rightarrow> async_load_first_frame src st3
                          | None \<Rightarrow> st3)
               in st4\<lparr>loading := True, view_playing := True\<rparr>
             else st1\<lparr>navigator := imv_navigator_remove (navigator st1) current_path\<rparr>)
      else st)"

text \<open>
  The \<^verbatim>\<open>while\<close> loop itself. It has no bound in the source, so it is a partial function:
  \<open>None\<close> is a loop that never ends.
\<close>

partial_function (option) selection_loop :: "imv \<Rightarrow> imv option" where
  "selection_loop st =
     (let polled = imv_navigator_poll_changed (navigator st);
          st1 = st\<lparr>navigator := snd polled\<rparr>
      in if fst polled then selection_loop (load_selection st1) else Some st1)"

text \<open>
  The exit tests at the head of an iteration of \<^verbatim>\<open>while (!imv->quit)\<close>, after the events are
  handled: \<^verbatim>\<open>break\<close>, \<^verbatim>\<open>continue\<close> (back to the loop condition), or on with the iteration.
\<close>

datatype loop_ctl = Break | Continue | Proceed

definition check_termination :: "imv \<Rightarrow> loop_ctl \<times> imv" where
  "check_termination st =
     (if quit st then (Break, st)
      else if \<not> loop_input st \<and> imv_navigator_wrapped (navigator st) then (Break, st)
      else if \<not> paths_from_stdin st \<and> imv_navigator_length (navigator st) = 0
        then (Continue, st\<lparr>quit := True\<rparr>)
      else (Proceed, st))"

text \<open>The loop is left in this iteration: by \<^verbatim>\<open>break\<close>, or by \<^verbatim>\<open>continue\<close> into a loop
  condition \<^verbatim>\<open>!imv->quit\<close> that fails.\<close>

definition run_loop_exits :: "imv \<Rightarrow> bool" where
  "run_loop_exits st =
     (case check_termination st of
        (Break, st') \<Rightarrow> True
      | (Continue, st') \<Rightarrow> quit st'
      | (Proceed, st') \<Rightarrow> False)"

text \<open>``Check if a new frame is due'': \<open>current_time\<close> is \<^verbatim>\<open>SDL_GetTicks()\<close>.\<close>

definition frame_due :: "32 word \<Rightarrow> imv \<Rightarrow> bool" where
  "frame_due current_time st =
     (view_playing st \<and> next_frame st \<noteq> None \<and> next_frame_due st \<noteq> 0
      \<and> next_frame_due st \<le> current_time)"

definition promote_frame :: "32 word \<Rightarrow> imv \<Rightarrow> imv" where
  "promote_frame current_time st =
     (case next_frame st of
        None \<Rightarrow> st
      | Some nf \<Rightarrow>
          if frame_due current_time st then
            let st1 = (imv_bitmap_free nf
                        (st\<lparr>imv_image := Some nf,
                            current_image_width := width nf,
                            current_image_height := height nf\<rparr>))
                      \<lparr>next_frame := None,
                       next_frame_due := current_time + next_frame_duration st,
                       next_frame_duration := 0,
                       need_redraw := True\<rparr>
            in (case source st1 of
                  None \<Rightarrow> st1
                | Some src \<Rightarrow> if load_next_frame src then async_load_next_frame src st1 else st1)
          else st)"

text \<open>``handle slideshow'': \<open>last_time\<close> is the local of \<^verbatim>\<open>imv_run\<close>.\<close>

definition slideshow_step :: "32 word \<Rightarrow> 32 word \<Rightarrow> imv \<Rightarrow> imv" where
  "slideshow_step current_time last_time st =
     (if slideshow_image_duration st \<noteq> 0 then
        let dt = current_time - last_time;
            st1 = st\<lparr>slideshow_time_elapsed := slideshow_time_elapsed st + ucast dt,
                     need_redraw := True\<rparr>
        in if slideshow_image_duration st1 \<le> slideshow_time_elapsed st1
           then st1\<lparr>navigator := imv_navigator_select_rel (navigator st1) 1,
                    slideshow_time_elapsed := 0\<rparr>
           else st1
      else st)"

text \<open>
  ``sleep until we have something to do'': the local \<^verbatim>\<open>timeout\<close> is an \<^verbatim>\<open>unsigned int\<close>; it is
  handed to \<^verbatim>\<open>SDL_WaitEventTimeout\<close>, whose parameter is an \<^verbatim>\<open>int\<close>, so what the wait receives
  is the two's complement reading of the 32 bits, in milliseconds.
\<close>

definition wait_timeout :: "32 word \<Rightarrow> imv \<Rightarrow> int" where
  "wait_timeout current_time st =
     (let timeout = (if view_playing st \<and> current_time < next_frame_due st
                     then next_frame_due st - current_time
                     else 1000)
      in sint timeout)"

section \<open>Events\<close>

text \<open>\<open>ticks\<close> is what \<^verbatim>\<open>SDL_GetTicks()\<close> returns.\<close>

definition handle_new_image :: "32 word \<Rightarrow> imv_bitmap \<Rightarrow> 32 word \<Rightarrow> imv \<Rightarrow> imv" where
  "handle_new_image ticks bitmap frametime st =
     (let st1 = (imv_bitmap_free bitmap
                  (st\<lparr>imv_image := Some bitmap,
                      current_image_width := width bitmap,
                      current_image_height := height bitmap\<rparr>))
                \<lparr>need_redraw := True, need_rescale := True\<rparr>;
          st2 = (if resize_mode st1 \<noteq> RESIZE_NONE then st1\<lparr>need_resize := True\<rparr> else st1);
          st3 = (if need_resize st2 then st2\<lparr>need_resize := False\<rparr> else st2);
          st4 = st3\<lparr>loading := False,
                    next_frame_due := (if frametime \<noteq> 0 then ticks + frametime else 0),
                    next_frame_duration := 0\<rparr>
      in (case source st4 of
            None \<Rightarrow> st4
          | Some src \<Rightarrow>
              if load_next_frame src \<and> frametime \<noteq> 0 then async_load_next_frame src st4
              else st4))"

definition handle_new_frame :: "imv_bitmap \<Rightarrow> 32 word \<Rightarrow> imv \<Rightarrow> imv" where
  "handle_new_frame bitmap frametime st =
     (let st1 = (case next_frame st of Some old \<Rightarrow> imv_bitmap_free old st | None \<Rightarrow> st)
      in st1\<lparr>next_frame := Some bitmap, next_frame_duration := frametime\<rparr>)"

text \<open>\<^verbatim>\<open>handle_event\<close> on the two events a source's callback posts.\<close>

fun handle_event :: "32 word \<Rightarrow> imv_event \<Rightarrow> imv \<Rightarrow> imv" where
  "handle_event ticks (NEW_IMAGE bitmap frametime is_new_image) st =
     (if is_new_image then handle_new_image ticks bitmap frametime st
      else handle_new_frame bitmap frametime st)"
| "handle_event ticks BAD_IMAGE st =
     (let err_path = imv_navigator_selection (navigator st);
          st1 = (if err_path = ''-'' then
                   (case stdin_image_data st of
                      Some d \<Rightarrow> st\<lparr>stdin_image_data := None, trace := trace st @ [StdinDataFree]\<rparr>
                    | None \<Rightarrow> st)
                 else st)
      in st1\<lparr>navigator := imv_navigator_remove (navigator st1) err_path\<rparr>)"

text \<open>\<^verbatim>\<open>while (!imv->quit && SDL_PollEvent(&e)) handle_event(imv, &e);\<close>\<close>

fun drain :: "32 word \<Rightarrow> imv_event list \<Rightarrow> imv \<Rightarrow> imv" where
  "drain ticks [] st = st\<lparr>sdl_queue := []\<rparr>"
| "drain ticks (e # es) st =
     (if quit st then st\<lparr>sdl_queue := e # es\<rparr> else drain ticks es (handle_event ticks e st))"

definition poll_events :: "32 word \<Rightarrow> imv \<Rightarrow> imv" where
  "poll_events ticks st = drain ticks (sdl_queue st) st"

definition command_next_frame :: "imv \<Rightarrow> imv" where
  "command_next_frame st =
     (case source st of
        None \<Rightarrow> st
      | Some src \<Rightarrow>
          if load_next_frame src then (async_load_next_frame src st)\<lparr>next_frame_due := 1\<rparr>
          else st)"

section \<open>Auxiliary definitions\<close>

text \<open>\<^verbatim>\<open>imv_add_path\<close> hands the path to the Navigator.\<close>

definition imv_add_path :: "imv \<Rightarrow> string \<Rightarrow> imv" where
  "imv_add_path st p = st\<lparr>navigator := imv_navigator_add (navigator st) p\<rparr>"

text \<open>A direct call of a source's \<^verbatim>\<open>free\<close>, as opposed to one on a detached thread.\<close>

fun is_source_free :: "effect \<Rightarrow> bool" where
  "is_source_free (SourceFree s) = True"
| "is_source_free e = False"

text \<open>The variant of the selection loop: twice the number of paths, plus one while the
  changed flag is up.\<close>

definition selection_loop_variant :: "imv \<Rightarrow> nat" where
  "selection_loop_variant st =
     2 * length (paths (navigator st)) + (if changed (navigator st) then 1 else 0)"

text \<open>Two backends for the examples: one that answers Unsupported to everything, one that
  accepts everything and numbers its source by the length of the path.\<close>

definition rejecting_backend :: imv_backend where
  "rejecting_backend =
     \<lparr>backend_name = ''A'',
      open_path = Some (\<lambda>p. (BACKEND_UNSUPPORTED, \<lparr>source_id = 0, load_next_frame = False\<rparr>)),
      open_memory = Some (\<lambda>d. (BACKEND_UNSUPPORTED, \<lparr>source_id = 0, load_next_frame = False\<rparr>))\<rparr>"

definition accepting_backend :: imv_backend where
  "accepting_backend =
     \<lparr>backend_name = ''B'',
      open_path = Some (\<lambda>p. (BACKEND_SUCCESS, \<lparr>source_id = length p, load_next_frame = False\<rparr>)),
      open_memory = Some (\<lambda>d. (BACKEND_SUCCESS, \<lparr>source_id = 0, load_next_frame = False\<rparr>))\<rparr>"

text \<open>Two more: one that has no \<open>open_memory\<close> and accepts every path, and one that
  answers every input with an error that is neither success nor Unsupported.\<close>

definition path_only_backend :: imv_backend where
  "path_only_backend =
     \<lparr>backend_name = ''P'',
      open_path = Some (\<lambda>p. (BACKEND_SUCCESS, \<lparr>source_id = 7, load_next_frame = False\<rparr>)),
      open_memory = None\<rparr>"

definition failing_backend :: imv_backend where
  "failing_backend =
     \<lparr>backend_name = ''C'',
      open_path = Some (\<lambda>p. (BACKEND_OTHER, \<lparr>source_id = 0, load_next_frame = False\<rparr>)),
      open_memory = Some (\<lambda>d. (BACKEND_OTHER, \<lparr>source_id = 0, load_next_frame = False\<rparr>))\<rparr>"

text \<open>A viewer on two paths that no backend opens.\<close>

definition two_unsupported :: imv where
  "two_unsupported =
     imv_add_path (imv_add_path (imv_install_backend imv_create rejecting_backend) ''a.txt'')
       ''b.txt''"

text \<open>A viewer on the image read from stdin; the backend registered last cannot open
  memory.\<close>

definition stdin_image :: imv where
  "stdin_image =
     imv_add_path
       (imv_install_backend
          (imv_install_backend (imv_create\<lparr>stdin_image_data := Some [71, 73, 70]\<rparr>)
             accepting_backend)
          path_only_backend)
       ''-''"

text \<open>A viewer on one path; the backend registered last answers with an error, the one
  registered before it would accept.\<close>

definition error_first :: imv where
  "error_first =
     imv_add_path
       (imv_install_backend (imv_install_backend imv_create accepting_backend) failing_backend)
       ''a.png''"

text \<open>A viewer started on two paths with a slideshow of one second per image.\<close>

definition two_images :: imv where
  "two_images =
     imv_add_path
       (imv_add_path
          (imv_install_backend (imv_create\<lparr>slideshow_image_duration := 1000\<rparr>) accepting_backend)
          ''a.png'')
       ''b.png''"

text \<open>The same viewer with a source already current.\<close>

definition two_images_loaded :: imv where
  "two_images_loaded = two_images\<lparr>source := Some \<lparr>source_id = 9, load_next_frame = False\<rparr>\<rparr>"

section \<open>Properties\<close>

subsection \<open>Helper lemmas\<close>

lemma scaling_mode_next_cycle:
  "scaling_mode_of_value ((scaling_mode_value m + 1) mod SCALING_MODE_COUNT) =
     (case m of SCALING_NONE \<Rightarrow> SCALING_DOWN | SCALING_DOWN \<Rightarrow> SCALING_FULL
      | SCALING_FULL \<Rightarrow> SCALING_NONE)"
  by (cases m) (simp_all add: scaling_mode_of_value_def SCALING_MODE_COUNT_def)

lemma backends_installed:
  "backends (foldl imv_install_backend st registered) = rev registered @ backends st"
  by (induction registered arbitrary: st) (simp_all add: imv_install_backend_def)

lemma probe_spec:
  "probe i p d b = map_option (\<lambda>a. (a, spec_call i p b)) (spec_answer i p d b)"
  by (simp add: probe_def spec_answer_def spec_call_def split: option.splits)

lemma backend_loop_unsupported:
  "backend_loop chain i p d BACKEND_UNSUPPORTED ns = (result, new_source, calls) \<Longrightarrow>
     calls = probed_spec i p d chain \<and>
     (case List.find (\<lambda>a. fst a \<noteq> BACKEND_UNSUPPORTED)
             (List.map_filter (spec_answer i p d) chain) of
        None \<Rightarrow> result = BACKEND_UNSUPPORTED
      | Some a \<Rightarrow> result = fst a \<and> new_source = Some (snd a))"
proof (induction chain arbitrary: ns result new_source calls)
  case Nil
  then show ?case by simp
next
  case (Cons b chain)
  show ?case
  proof (cases "spec_answer i p d b")
    case None
    then have "probe i p d b = None" by (simp add: probe_spec)
    with Cons None show ?thesis by simp
  next
    case (Some a)
    obtain r s where a: "a = (r, s)" by (cases a) auto
    with Some have pr: "probe i p d b = Some ((r, s), spec_call i p b)"
      by (simp add: probe_spec)
    show ?thesis
    proof (cases "r = BACKEND_UNSUPPORTED")
      case True
      obtain r' s' calls' where rest:
        "backend_loop chain i p d BACKEND_UNSUPPORTED (Some s) = (r', s', calls')"
        by (cases "backend_loop chain i p d BACKEND_UNSUPPORTED (Some s)") auto
      from Cons.IH [OF rest] Cons.prems Some a pr True rest
      show ?thesis by (auto split: option.splits)
    next
      case False
      with Cons.prems Some a pr show ?thesis by auto
    qed
  qed
qed

lemma load_selection_failure:
  assumes "imv_navigator_selection (navigator st) \<noteq> []"
    and "fst (backend_loop (backends st) (imv_navigator_selection (navigator st) = ''-'')
            (imv_navigator_selection (navigator st)) (stdin_image_data st)
            BACKEND_UNSUPPORTED None) \<noteq> BACKEND_SUCCESS"
  shows "navigator (load_selection st) =
           imv_navigator_remove (navigator st) (imv_navigator_selection (navigator st))"
    and "source (load_selection st) = source st"
  using assms by (auto simp add: load_selection_def Let_def split: prod.splits)

lemma load_selection_kept:
  assumes "imv_navigator_selection (navigator st) = []
      \<or> fst (backend_loop (backends st) (imv_navigator_selection (navigator st) = ''-'')
            (imv_navigator_selection (navigator st)) (stdin_image_data st)
            BACKEND_UNSUPPORTED None) = BACKEND_SUCCESS"
  shows "navigator (load_selection st) = navigator st"
  using assms
  by (auto simp add: load_selection_def Let_def async_free_source_def
      async_load_first_frame_def split: prod.splits option.splits)

lemma probe_call_kind:
  "probe i p d b = Some (a, call) \<Longrightarrow> \<not> is_source_free call"
  by (auto simp add: probe_def split: if_splits option.splits)

lemma backend_loop_calls:
  "backend_loop chain i p d r ns = (r', ns', calls) \<Longrightarrow> filter is_source_free calls = []"
proof (induction chain arbitrary: r ns r' ns' calls)
  case Nil
  then show ?case by simp
next
  case (Cons b chain)
  show ?case
  proof (cases "probe i p d b")
    case None
    with Cons show ?thesis by simp
  next
    case (Some ac)
    obtain r1 s1 call where ac: "ac = ((r1, s1), call)" by (cases ac) auto
    with Some have nf: "\<not> is_source_free call" using probe_call_kind by blast
    show ?thesis
    proof (cases "r1 = BACKEND_UNSUPPORTED")
      case True
      obtain r2 s2 calls2 where rest:
        "backend_loop chain i p d r1 (Some s1) = (r2, s2, calls2)"
        by (cases "backend_loop chain i p d r1 (Some s1)") auto
      from Cons.IH [OF rest] Cons.prems Some ac True rest nf
      show ?thesis by auto
    next
      case False
      with Cons.prems Some ac nf show ?thesis by auto
    qed
  qed
qed

lemma find_path_member:
  "p \<in> set ps \<Longrightarrow> \<exists>i. find_path ps p = Some i \<and> i < length ps"
  by (induction ps) auto

lemma length_remove_at: "i < length ps \<Longrightarrow> length (remove_at ps i) < length ps"
  by (induction ps i rule: remove_at.induct) auto

lemma remove_selection_shrinks:
  assumes "imv_navigator_selection nav \<noteq> []"
  shows "length (paths (imv_navigator_remove nav (imv_navigator_selection nav)))
           < length (paths nav)"
proof -
  from assms have "imv_navigator_selection nav \<in> set (paths nav)"
    by (auto simp add: imv_navigator_selection_def split: if_splits)
  then obtain i where "find_path (paths nav) (imv_navigator_selection nav) = Some i"
    and "i < length (paths nav)"
    using find_path_member by blast
  then show ?thesis
    by (simp add: imv_navigator_remove_def Let_def length_remove_at)
qed

lemma navigator_async [simp]:
  "navigator (async_free_source s st) = navigator st"
  "navigator (async_load_first_frame s st) = navigator st"
  by (simp_all add: async_free_source_def async_load_first_frame_def)

lemma load_selection_navigator:
  "navigator (load_selection st) = navigator st \<or>
   length (paths (navigator (load_selection st))) < length (paths (navigator st))"
proof (cases "imv_navigator_selection (navigator st) = []")
  case True
  then show ?thesis by (simp add: load_selection_def)
next
  case False
  then show ?thesis
    using remove_selection_shrinks [of "navigator st"]
    by (auto simp add: load_selection_def Let_def split: prod.splits option.splits)
qed

lemma load_selection_variant:
  "\<not> changed (navigator st) \<Longrightarrow>
     selection_loop_variant (load_selection st) \<le> 2 * length (paths (navigator st))"
  using load_selection_navigator [of st]
  by (auto simp add: selection_loop_variant_def)

lemma selection_loop_ends:
  "\<exists>st'. selection_loop st = Some st' \<and> \<not> changed (navigator st')"
proof (induction "selection_loop_variant st" arbitrary: st rule: less_induct)
  case less
  show ?case
  proof (cases "fst (imv_navigator_poll_changed (navigator st))")
    case False
    then show ?thesis
      by (subst selection_loop.simps)
         (auto simp add: imv_navigator_poll_changed_def Let_def split: if_splits)
  next
    case True
    let ?st1 = "st\<lparr>navigator := snd (imv_navigator_poll_changed (navigator st))\<rparr>"
    from True have ch: "changed (navigator st)"
      by (auto simp add: imv_navigator_poll_changed_def split: if_splits)
    then have nav1: "navigator ?st1 = (navigator st)\<lparr>changed := False\<rparr>"
      by (simp add: imv_navigator_poll_changed_def)
    then have "selection_loop_variant (load_selection ?st1) \<le> 2 * length (paths (navigator st))"
      using load_selection_variant [of ?st1] by simp
    with ch have "selection_loop_variant (load_selection ?st1) < selection_loop_variant st"
      by (simp add: selection_loop_variant_def)
    from less [OF this] True show ?thesis
      by (subst selection_loop.simps) (simp add: Let_def)
  qed
qed

lemma load_selection_no_source_free:
  "filter is_source_free (trace (load_selection st)) = filter is_source_free (trace st)"
proof (cases "imv_navigator_selection (navigator st) = []")
  case True
  then show ?thesis by (simp add: load_selection_def)
next
  case False
  obtain r ns calls where bl:
    "backend_loop (backends st) (imv_navigator_selection (navigator st) = ''-'')
       (imv_navigator_selection (navigator st)) (stdin_image_data st) BACKEND_UNSUPPORTED None
     = (r, ns, calls)"
    using prod_cases3 by blast
  from backend_loop_calls [OF bl] False bl show ?thesis
    by (simp add: load_selection_def Let_def async_free_source_def async_load_first_frame_def
        split: option.splits)
qed

lemma selection_loop_no_source_free:
  assumes "selection_loop st = Some st'"
  shows "filter is_source_free (trace st') = filter is_source_free (trace st)"
proof (rule selection_loop.raw_induct
    [where P = "\<lambda>x y. filter is_source_free (trace y) = filter is_source_free (trace x)",
      OF _ assms])
  fix loop :: "imv \<Rightarrow> imv option" and x y
  assume IH: "\<And>u v. loop u = Some v \<Longrightarrow>
      filter is_source_free (trace v) = filter is_source_free (trace u)"
    and body: "(let polled = imv_navigator_poll_changed (navigator x);
                    st1 = x\<lparr>navigator := snd polled\<rparr>
                in if fst polled then loop (load_selection st1) else Some st1) = Some y"
  show "filter is_source_free (trace y) = filter is_source_free (trace x)"
  proof (cases "fst (imv_navigator_poll_changed (navigator x))")
    case True
    with body have "loop (load_selection
        (x\<lparr>navigator := snd (imv_navigator_poll_changed (navigator x))\<rparr>)) = Some y"
      by (simp add: Let_def)
    from IH [OF this] show ?thesis
      by (simp add: load_selection_no_source_free)
  next
    case False
    with body show ?thesis by (auto simp add: Let_def)
  qed
qed

lemma selection_loop_idle:
  "\<not> fst (imv_navigator_poll_changed (navigator st)) \<Longrightarrow>
     selection_loop st = Some (st\<lparr>navigator := snd (imv_navigator_poll_changed (navigator st))\<rparr>)"
  by (subst selection_loop.simps) (simp add: Let_def)

lemma selection_loop_step:
  "fst (imv_navigator_poll_changed (navigator st)) \<Longrightarrow>
     selection_loop st =
       selection_loop (load_selection
         (st\<lparr>navigator := snd (imv_navigator_poll_changed (navigator st))\<rparr>))"
  by (subst selection_loop.simps) (simp add: Let_def)

lemmas example_defs =
  two_images_loaded_def two_images_def two_unsupported_def stdin_image_def error_first_def
  imv_add_path_def imv_install_backend_def imv_create_def
  accepting_backend_def rejecting_backend_def path_only_backend_def failing_backend_def
  imv_navigator_add_def imv_navigator_create_def imv_navigator_poll_changed_def
  imv_navigator_selection_def imv_navigator_remove_def imv_navigator_select_rel_def
  load_selection_def probe_def async_free_source_def async_load_first_frame_def
  slideshow_step_def source_callback_def poll_events_def Let_def

lemma two_images_first_load:
  "selection_loop two_images =
     Some (two_images
        \<lparr>navigator := (navigator two_images)\<lparr>changed := False\<rparr>,
         source := Some \<lparr>source_id = 5, load_next_frame = False\<rparr>,
         loading := True, view_playing := True,
         trace := [OpenPath ''B'' ''a.png'',
                   AsyncLoadFirstFrame \<lparr>source_id = 5, load_next_frame = False\<rparr>]\<rparr>)"
  apply (subst selection_loop_step)
   apply (simp add: example_defs)
  apply (subst selection_loop_idle)
   apply (simp add: example_defs)
  apply (simp add: example_defs)
  done

lemma uint_eq_sint_mod: "uint (x :: 64 word) = sint x mod 2 ^ 64"
  by (simp add: uint_sint take_bit_eq_mod)

lemma sint_delta:
  assumes "- (2 ^ 63) < 1000 * sint (n :: 64 word)" "1000 * sint n < 2 ^ 63"
  shows "sint (1000 * n) = 1000 * sint n"
proof -
  have "sint (1000 * n) = signed_take_bit 63 (sint (1000 :: 64 word) * sint n)"
    by (simp add: sint_word_ariths)
  also have "\<dots> = signed_take_bit 63 (1000 * sint n)" by simp
  also have "\<dots> = 1000 * sint n"
    using assms by (intro signed_take_bit_int_eq_self) simp_all
  finally show ?thesis .
qed

lemma uint_labs_neg:
  assumes "sint (x :: 64 word) < 0" "- (2 ^ 63) < sint x"
  shows "uint (labs x) = - sint x"
proof -
  have "uint (- x) = (- uint x) mod 2 ^ 64"
    by (simp add: uint_word_ariths)
  also have "\<dots> = (- sint x) mod 2 ^ 64"
    by (simp add: uint_eq_sint_mod mod_minus_eq)
  also have "\<dots> = - sint x"
    using assms by simp
  finally show ?thesis using assms by (simp add: labs_def)
qed

lemma uint_add_delta: "uint (d + x) = (uint d + sint x) mod 2 ^ 64" for d x :: "64 word"
proof -
  have "uint (d + x) = (uint d + uint x) mod 2 ^ 64"
    by (simp add: uint_word_ariths)
  also have "\<dots> = (uint d + sint x mod 2 ^ 64) mod 2 ^ 64"
    by (simp only: uint_eq_sint_mod [of x])
  also have "\<dots> = (uint d + sint x) mod 2 ^ 64"
    by (simp only: mod_add_right_eq)
  finally show ?thesis .
qed

lemma slideshow_duration_result:
  assumes "length args = 2"
    and "- (2 ^ 63) < 1000 * sint (strtol (args ! 1))"
    and "1000 * sint (strtol (args ! 1)) < 2 ^ 63"
  shows "uint (slideshow_image_duration (command_set_slideshow_duration strtol args st)) =
     (if 1000 * sint (strtol (args ! 1)) < 0
         \<and> uint (slideshow_image_duration st) < \<bar>1000 * sint (strtol (args ! 1))\<bar>
      then 0
      else (uint (slideshow_image_duration st) + 1000 * sint (strtol (args ! 1))) mod 2 ^ 64)"
proof -
  let ?n = "strtol (args ! 1)"
  have s: "sint (1000 * ?n) = 1000 * sint ?n" using assms(2,3) by (rule sint_delta)
  show ?thesis
  proof (cases "1000 * sint ?n < 0")
    case True
    then have l: "uint (labs (1000 * ?n)) = - (1000 * sint ?n)"
      using uint_labs_neg[of "1000 * ?n"] s assms(2) by simp
    show ?thesis using True assms(1) s l
      by (simp add: command_set_slideshow_duration_def Let_def word_less_def uint_add_delta)
  next
    case False
    then show ?thesis using assms(1) s
      by (simp add: command_set_slideshow_duration_def Let_def uint_add_delta)
  qed
qed

lemma two_images_loaded_reload:
  "selection_loop two_images_loaded =
     Some (two_images_loaded
        \<lparr>navigator := (navigator two_images_loaded)\<lparr>changed := False\<rparr>,
         source := Some \<lparr>source_id = 5, load_next_frame = False\<rparr>,
         loading := True, view_playing := True,
         trace := [OpenPath ''B'' ''a.png'',
                   AsyncFreeSource \<lparr>source_id = 9, load_next_frame = False\<rparr>,
                   AsyncLoadFirstFrame \<lparr>source_id = 5, load_next_frame = False\<rparr>]\<rparr>)"
  apply (subst selection_loop_step)
   apply (simp add: example_defs)
  apply (subst selection_loop_idle)
   apply (simp add: example_defs)
  apply (simp add: example_defs)
  done

lemma no_promotion_without_timer:
  "next_frame_due st = 0 \<Longrightarrow> \<not> frame_due t st \<and> promote_frame t st = st"
  by (simp add: frame_due_def promote_frame_def split: option.splits)

lemma still_image_clears_timer:
  "next_frame_due (handle_new_image ticks b 0 st) = 0"
  by (simp add: handle_new_image_def imv_bitmap_free_def async_load_next_frame_def Let_def
      split: option.splits)

lemma next_frame_command_sets_timer:
  "source st = Some src \<Longrightarrow> load_next_frame src \<Longrightarrow>
     next_frame_due (command_next_frame st) = 1"
  by (simp add: command_next_frame_def async_load_next_frame_def)

subsection \<open>The claims\<close>

text \<open>
  C1. A decode message that reaches \<^verbatim>\<open>source_callback\<close> and whose originating source is
  not the one currently installed is discarded: no event is posted, the displayed bitmap,
  the prefetched frame, the dimensions and every other field of the viewer keep their
  values, and the bitmap the message carries, if any, is released.
\<close>

theorem stale_message_discarded:
  assumes "Some (msg_source msg) \<noteq> source st"
  shows "source_callback msg st =
           st\<lparr>trace := trace st @
                  (case msg_bitmap msg of Some b \<Rightarrow> [BitmapFree b] | None \<Rightarrow> [])\<rparr>
         \<and> sdl_queue (source_callback msg st) = sdl_queue st
         \<and> imv_image (source_callback msg st) = imv_image st
         \<and> next_frame (source_callback msg st) = next_frame st
         \<and> next_frame_due (source_callback msg st) = next_frame_due st
         \<and> next_frame_duration (source_callback msg st) = next_frame_duration st
         \<and> current_image_width (source_callback msg st) = current_image_width st
         \<and> current_image_height (source_callback msg st) = current_image_height st
         \<and> view_playing (source_callback msg st) = view_playing st"
  using assms
  by (simp add: source_callback_def imv_bitmap_free_def split: option.splits)

theorem stale_message_discarded_witness:
  "Some (msg_source \<lparr>msg_source = \<lparr>source_id = 1, load_next_frame = False\<rparr>,
                     msg_bitmap = Some \<lparr>bitmap_id = 3, width = 4, height = 2\<rparr>,
                     msg_frametime = 0\<rparr>)
     \<noteq> source (imv_create\<lparr>source := Some \<lparr>source_id = 2, load_next_frame = False\<rparr>\<rparr>)
   \<and> source_callback
       \<lparr>msg_source = \<lparr>source_id = 1, load_next_frame = False\<rparr>,
        msg_bitmap = Some \<lparr>bitmap_id = 3, width = 4, height = 2\<rparr>,
        msg_frametime = 0\<rparr>
       (imv_create\<lparr>source := Some \<lparr>source_id = 2, load_next_frame = False\<rparr>\<rparr>)
     = imv_create\<lparr>source := Some \<lparr>source_id = 2, load_next_frame = False\<rparr>,
                  trace := [BitmapFree \<lparr>bitmap_id = 3, width = 4, height = 2\<rparr>]\<rparr>"
  using stale_message_discarded
    [of "\<lparr>msg_source = \<lparr>source_id = 1, load_next_frame = False\<rparr>,
          msg_bitmap = Some \<lparr>bitmap_id = 3, width = 4, height = 2\<rparr>,
          msg_frametime = 0\<rparr>"
        "imv_create\<lparr>source := Some \<lparr>source_id = 2, load_next_frame = False\<rparr>\<rparr>"]
  by (simp add: imv_create_def)

lemma two_unsupported_run:
  "map_option (\<lambda>s. (paths (navigator s), changed (navigator s), source s, trace s))
     (selection_loop two_unsupported)
   = Some ([], False, None, [OpenPath ''A'' ''a.txt'', OpenPath ''A'' ''b.txt''])"
  apply (subst selection_loop_step)
   apply (simp add: example_defs)
  apply (subst selection_loop_step)
   apply (simp add: example_defs)
  apply (subst selection_loop_idle)
   apply (simp add: example_defs)
  apply (simp add: example_defs)
  done

text \<open>
  C2 (as amended). Backends are tried most recently registered first. After any sequence
  of \<^verbatim>\<open>imv_install_backend\<close> calls the loop over the chain calls the descriptors in reverse
  registration order, skips those without the capability the input needs (\<open>open_path\<close>
  for a path, \<open>open_memory\<close> for the data from stdin), and stops at the first that does not
  answer Unsupported. If that answer is success, the source of that backend is installed;
  if it is any other result, or every backend answers Unsupported, no source is installed,
  no further backend is tried and the entry is removed from the Navigator. With \<open>B\<close>
  registered first and accepting the input and \<open>A\<close> registered after it and rejecting the
  input, \<open>A\<close> is called first and the source is the one \<open>B\<close> made.
\<close>

theorem backend_resolution_most_recent_first:
  "(backend_loop (backends (foldl imv_install_backend st registered)) i p d
        BACKEND_UNSUPPORTED None = (result, new_source, calls) \<longrightarrow>
      calls = probed_spec i p d (rev registered @ backends st) \<and>
      (case resolve_spec (rev (backends st) @ registered) i p d of
         None \<Rightarrow> result = BACKEND_UNSUPPORTED
       | Some a \<Rightarrow> result = fst a \<and> new_source = Some (snd a)))
   \<and> (backends st = [] \<and> spec_answer i p d A = Some (BACKEND_UNSUPPORTED, sA)
        \<and> spec_answer i p d B = Some (BACKEND_SUCCESS, sB) \<longrightarrow>
      backend_loop (backends (imv_install_backend (imv_install_backend st B) A)) i p d
        BACKEND_UNSUPPORTED None
      = (BACKEND_SUCCESS, Some sB, [spec_call i p A, spec_call i p B]))
   \<and> (imv_navigator_selection (navigator st) \<noteq> []
        \<and> backend_loop (backends st) (imv_navigator_selection (navigator st) = ''-'')
             (imv_navigator_selection (navigator st)) (stdin_image_data st)
             BACKEND_UNSUPPORTED None = (BACKEND_SUCCESS, Some src, made) \<longrightarrow>
      source (load_selection st) = Some src
      \<and> navigator (load_selection st) = navigator st)
   \<and> (imv_navigator_selection (navigator st) \<noteq> []
        \<and> fst (backend_loop (backends st) (imv_navigator_selection (navigator st) = ''-'')
             (imv_navigator_selection (navigator st)) (stdin_image_data st)
             BACKEND_UNSUPPORTED None) \<noteq> BACKEND_SUCCESS \<longrightarrow>
      source (load_selection st) = source st
      \<and> navigator (load_selection st) =
          imv_navigator_remove (navigator st) (imv_navigator_selection (navigator st)))"
proof (intro conjI impI)
  assume "backend_loop (backends (foldl imv_install_backend st registered)) i p d
        BACKEND_UNSUPPORTED None = (result, new_source, calls)"
  then have loop: "backend_loop (rev registered @ backends st) i p d BACKEND_UNSUPPORTED None
      = (result, new_source, calls)"
    by (simp add: backends_installed)
  from backend_loop_unsupported [OF loop]
  show "calls = probed_spec i p d (rev registered @ backends st)"
    by simp
  from backend_loop_unsupported [OF loop]
  show "case resolve_spec (rev (backends st) @ registered) i p d of
         None \<Rightarrow> result = BACKEND_UNSUPPORTED
       | Some a \<Rightarrow> result = fst a \<and> new_source = Some (snd a)"
    by (simp add: resolve_spec_def)
next
  assume "backends st = [] \<and> spec_answer i p d A = Some (BACKEND_UNSUPPORTED, sA)
        \<and> spec_answer i p d B = Some (BACKEND_SUCCESS, sB)"
  then show "backend_loop (backends (imv_install_backend (imv_install_backend st B) A)) i p d
        BACKEND_UNSUPPORTED None
      = (BACKEND_SUCCESS, Some sB, [spec_call i p A, spec_call i p B])"
    by (simp add: imv_install_backend_def probe_spec)
next
  assume ok: "imv_navigator_selection (navigator st) \<noteq> []
        \<and> backend_loop (backends st) (imv_navigator_selection (navigator st) = ''-'')
             (imv_navigator_selection (navigator st)) (stdin_image_data st)
             BACKEND_UNSUPPORTED None = (BACKEND_SUCCESS, Some src, made)"
  then show "source (load_selection st) = Some src"
    by (simp add: load_selection_def Let_def async_free_source_def async_load_first_frame_def
        split: option.splits)
  from ok show "navigator (load_selection st) = navigator st"
    by (intro load_selection_kept) simp
next
  assume bad: "imv_navigator_selection (navigator st) \<noteq> []
        \<and> fst (backend_loop (backends st) (imv_navigator_selection (navigator st) = ''-'')
             (imv_navigator_selection (navigator st)) (stdin_image_data st)
             BACKEND_UNSUPPORTED None) \<noteq> BACKEND_SUCCESS"
  then show "source (load_selection st) = source st"
    by (intro load_selection_failure) simp_all
  from bad show "navigator (load_selection st) =
      imv_navigator_remove (navigator st) (imv_navigator_selection (navigator st))"
    by (intro load_selection_failure) simp_all
qed

text \<open>
  The example of the spec on a path (\<open>B\<close> registered first, \<open>A\<close> after it); the image from
  stdin with a backend that has no \<open>open_memory\<close> registered last, which is skipped without
  a call, while the same chain gives a path to that backend; and a backend that answers
  with an error, after which nothing is installed and the path is removed.
\<close>

theorem backend_resolution_most_recent_first_witness:
  "backends imv_create = []
   \<and> spec_answer False ''x.png'' None rejecting_backend =
       Some (BACKEND_UNSUPPORTED, \<lparr>source_id = 0, load_next_frame = False\<rparr>)
   \<and> spec_answer False ''x.png'' None accepting_backend =
       Some (BACKEND_SUCCESS, \<lparr>source_id = 5, load_next_frame = False\<rparr>)
   \<and> backend_loop
       (backends (imv_install_backend (imv_install_backend imv_create accepting_backend)
          rejecting_backend))
       False ''x.png'' None BACKEND_UNSUPPORTED None
     = (BACKEND_SUCCESS, Some \<lparr>source_id = 5, load_next_frame = False\<rparr>,
        [OpenPath ''A'' ''x.png'', OpenPath ''B'' ''x.png''])
   \<and> backend_loop
       (backends (foldl imv_install_backend imv_create [accepting_backend, rejecting_backend]))
       False ''x.png'' None BACKEND_UNSUPPORTED None
     = (BACKEND_SUCCESS, Some \<lparr>source_id = 5, load_next_frame = False\<rparr>,
        [OpenPath ''A'' ''x.png'', OpenPath ''B'' ''x.png''])
   \<and> resolve_spec [accepting_backend, rejecting_backend] False ''x.png'' None =
       Some (BACKEND_SUCCESS, \<lparr>source_id = 5, load_next_frame = False\<rparr>)
   \<and> imv_navigator_selection (navigator stdin_image) = ''-''
   \<and> backend_loop (backends stdin_image) True ''-'' (Some [71, 73, 70])
        BACKEND_UNSUPPORTED None
     = (BACKEND_SUCCESS, Some \<lparr>source_id = 0, load_next_frame = False\<rparr>, [OpenMemory ''B''])
   \<and> probed_spec True ''-'' (Some [71, 73, 70]) [path_only_backend, accepting_backend]
       = [OpenMemory ''B'']
   \<and> source (load_selection stdin_image) = Some \<lparr>source_id = 0, load_next_frame = False\<rparr>
   \<and> trace (load_selection stdin_image) =
       [OpenMemory ''B'', AsyncLoadFirstFrame \<lparr>source_id = 0, load_next_frame = False\<rparr>]
   \<and> backend_loop (backends stdin_image) False ''x.png'' (Some [71, 73, 70])
        BACKEND_UNSUPPORTED None
     = (BACKEND_SUCCESS, Some \<lparr>source_id = 7, load_next_frame = False\<rparr>,
        [OpenPath ''P'' ''x.png''])
   \<and> imv_navigator_selection (navigator error_first) = ''a.png''
   \<and> fst (backend_loop (backends error_first) False ''a.png'' None BACKEND_UNSUPPORTED None)
       = BACKEND_OTHER
   \<and> source (load_selection error_first) = None
   \<and> paths (navigator (load_selection error_first)) = []"
  using backend_resolution_most_recent_first
    [where st = imv_create and registered = "[accepting_backend, rejecting_backend]"
       and i = False and p = "''x.png''" and d = None
       and result = BACKEND_SUCCESS
       and new_source = "Some \<lparr>source_id = 5, load_next_frame = False\<rparr>"
       and calls = "[OpenPath ''A'' ''x.png'', OpenPath ''B'' ''x.png'']"
       and A = rejecting_backend and sA = "\<lparr>source_id = 0, load_next_frame = False\<rparr>"
       and B = accepting_backend and sB = "\<lparr>source_id = 5, load_next_frame = False\<rparr>"]
    backend_resolution_most_recent_first
    [where st = stdin_image and registered = "[]"
       and i = True and p = "''-''" and d = "Some [71, 73, 70]"
       and result = BACKEND_SUCCESS
       and new_source = "Some \<lparr>source_id = 0, load_next_frame = False\<rparr>"
       and calls = "[OpenMemory ''B'']"
       and src = "\<lparr>source_id = 0, load_next_frame = False\<rparr>"
       and made = "[OpenMemory ''B'']"]
    backend_resolution_most_recent_first [where st = error_first]
  by (simp add: example_defs spec_answer_def spec_call_def resolve_spec_def)

text \<open>
  The first backend that does not answer Unsupported need not yield a source: here the
  backend tried first answers with an error; the backend behind it, which would accept,
  is not called, no source is installed and the path leaves the Navigator.
\<close>

theorem error_answer_yields_no_source:
  "backend_loop (backends error_first) False ''a.png'' None BACKEND_UNSUPPORTED None
     = (BACKEND_OTHER, Some \<lparr>source_id = 0, load_next_frame = False\<rparr>,
        [OpenPath ''C'' ''a.png''])
   \<and> spec_answer False ''a.png'' None accepting_backend =
       Some (BACKEND_SUCCESS, \<lparr>source_id = 5, load_next_frame = False\<rparr>)
   \<and> source (load_selection error_first) = None
   \<and> trace (load_selection error_first) = [OpenPath ''C'' ''a.png'']
   \<and> paths (navigator (load_selection error_first)) = []"
  by (simp add: example_defs spec_answer_def)

text \<open>
  C3. The selection loop ends from every state. An iteration in which no backend opens
  the selected path removes that entry, which makes the list strictly shorter; every
  other iteration leaves the Navigator as the poll left it; the poll lowers the changed
  flag; so the variant falls with every iteration and the loop returns, with the flag
  down.
\<close>

theorem selection_loop_terminates:
  "(\<exists>st'. selection_loop st = Some st' \<and> \<not> changed (navigator st'))
   \<and> (imv_navigator_selection (navigator st) \<noteq> []
        \<and> fst (backend_loop (backends st) (imv_navigator_selection (navigator st) = ''-'')
             (imv_navigator_selection (navigator st)) (stdin_image_data st)
             BACKEND_UNSUPPORTED None) \<noteq> BACKEND_SUCCESS \<longrightarrow>
        navigator (load_selection st) =
          imv_navigator_remove (navigator st) (imv_navigator_selection (navigator st))
        \<and> length (paths (navigator (load_selection st))) < length (paths (navigator st)))
   \<and> (imv_navigator_selection (navigator st) = []
        \<or> fst (backend_loop (backends st) (imv_navigator_selection (navigator st) = ''-'')
             (imv_navigator_selection (navigator st)) (stdin_image_data st)
             BACKEND_UNSUPPORTED None) = BACKEND_SUCCESS \<longrightarrow>
        navigator (load_selection st) = navigator st)
   \<and> (changed (navigator st) \<and> paths (navigator st) \<noteq> [] \<longrightarrow>
        selection_loop_variant
          (load_selection (st\<lparr>navigator := snd (imv_navigator_poll_changed (navigator st))\<rparr>))
        < selection_loop_variant st)"
proof (intro conjI impI)
  show "\<exists>st'. selection_loop st = Some st' \<and> \<not> changed (navigator st')"
    by (rule selection_loop_ends)
next
  assume bad: "imv_navigator_selection (navigator st) \<noteq> []
        \<and> fst (backend_loop (backends st) (imv_navigator_selection (navigator st) = ''-'')
             (imv_navigator_selection (navigator st)) (stdin_image_data st)
             BACKEND_UNSUPPORTED None) \<noteq> BACKEND_SUCCESS"
  then show removed: "navigator (load_selection st) =
      imv_navigator_remove (navigator st) (imv_navigator_selection (navigator st))"
    by (intro load_selection_failure) simp_all
  from bad remove_selection_shrinks [of "navigator st"]
  show "length (paths (navigator (load_selection st))) < length (paths (navigator st))"
    by (simp add: removed)
next
  assume "imv_navigator_selection (navigator st) = []
        \<or> fst (backend_loop (backends st) (imv_navigator_selection (navigator st) = ''-'')
             (imv_navigator_selection (navigator st)) (stdin_image_data st)
             BACKEND_UNSUPPORTED None) = BACKEND_SUCCESS"
  then show "navigator (load_selection st) = navigator st"
    by (rule load_selection_kept)
next
  let ?st1 = "st\<lparr>navigator := snd (imv_navigator_poll_changed (navigator st))\<rparr>"
  assume a: "changed (navigator st) \<and> paths (navigator st) \<noteq> []"
  then have "navigator ?st1 = (navigator st)\<lparr>changed := False\<rparr>"
    by (simp add: imv_navigator_poll_changed_def)
  then have "selection_loop_variant (load_selection ?st1) \<le> 2 * length (paths (navigator st))"
    using load_selection_variant [of ?st1] by simp
  with a show "selection_loop_variant (load_selection ?st1) < selection_loop_variant st"
    by (simp add: selection_loop_variant_def)
qed

text \<open>
  Two paths that no backend opens: each failed resolution removes the selected path, and
  the loop ends on the empty Navigator after two calls. Two paths that a backend opens:
  the Navigator keeps both.
\<close>

theorem selection_loop_terminates_witness:
  "changed (navigator two_unsupported) \<and> paths (navigator two_unsupported) \<noteq> []
   \<and> imv_navigator_selection (navigator two_unsupported) = ''a.txt''
   \<and> fst (backend_loop (backends two_unsupported) False ''a.txt'' None
             BACKEND_UNSUPPORTED None) = BACKEND_UNSUPPORTED
   \<and> paths (navigator (load_selection two_unsupported)) = [''b.txt'']
   \<and> selection_loop_variant
       (load_selection
          (two_unsupported
             \<lparr>navigator := snd (imv_navigator_poll_changed (navigator two_unsupported))\<rparr>)) = 3
   \<and> selection_loop_variant two_unsupported = 5
   \<and> map_option (\<lambda>s. (paths (navigator s), changed (navigator s), source s, trace s))
        (selection_loop two_unsupported)
      = Some ([], False, None, [OpenPath ''A'' ''a.txt'', OpenPath ''A'' ''b.txt''])
   \<and> fst (backend_loop (backends two_images) False ''a.png'' None
             BACKEND_UNSUPPORTED None) = BACKEND_SUCCESS
   \<and> paths (navigator (load_selection two_images)) = [''a.png'', ''b.png'']
   \<and> selection_loop_variant
       (load_selection
          (two_images\<lparr>navigator := snd (imv_navigator_poll_changed (navigator two_images))\<rparr>)) = 4
   \<and> (\<exists>st'. selection_loop two_images = Some st' \<and> \<not> changed (navigator st'))"
  using selection_loop_terminates [of two_unsupported] selection_loop_terminates [of two_images]
  by (simp add: two_unsupported_run) (simp add: example_defs selection_loop_variant_def)

text \<open>
  C4 (as amended). When the selection loop installs a new source while one is current,
  the old source's \<^verbatim>\<open>free\<close> is handed to a detached thread, and the loop never calls a
  source's \<^verbatim>\<open>free\<close> itself. On shutdown \<^verbatim>\<open>imv_free\<close> calls the current source's \<^verbatim>\<open>free\<close>
  directly, on the calling thread.
\<close>

theorem superseded_source_freed_on_detached_thread:
  "(source st = Some old \<and> imv_navigator_selection (navigator st) \<noteq> []
      \<and> backend_loop (backends st) (imv_navigator_selection (navigator st) = ''-'')
            (imv_navigator_selection (navigator st)) (stdin_image_data st)
            BACKEND_UNSUPPORTED None = (BACKEND_SUCCESS, Some new, calls) \<longrightarrow>
      source (load_selection st) = Some new
      \<and> trace (load_selection st) =
          trace st @ calls @ [AsyncFreeSource old, AsyncLoadFirstFrame new])
   \<and> filter is_source_free (trace (load_selection st)) = filter is_source_free (trace st)
   \<and> (selection_loop st = Some st' \<longrightarrow>
        filter is_source_free (trace st') = filter is_source_free (trace st))
   \<and> (source st = Some old \<longrightarrow>
        filter is_source_free (imv_free st) =
          filter is_source_free (trace st) @ [SourceFree old])"
proof (intro conjI impI)
  assume "source st = Some old \<and> imv_navigator_selection (navigator st) \<noteq> []
      \<and> backend_loop (backends st) (imv_navigator_selection (navigator st) = ''-'')
            (imv_navigator_selection (navigator st)) (stdin_image_data st)
            BACKEND_UNSUPPORTED None = (BACKEND_SUCCESS, Some new, calls)"
  then show "source (load_selection st) = Some new"
    and "trace (load_selection st) =
          trace st @ calls @ [AsyncFreeSource old, AsyncLoadFirstFrame new]"
    by (simp_all add: load_selection_def Let_def async_free_source_def
        async_load_first_frame_def)
next
  show "filter is_source_free (trace (load_selection st)) = filter is_source_free (trace st)"
    by (rule load_selection_no_source_free)
next
  assume "selection_loop st = Some st'"
  then show "filter is_source_free (trace st') = filter is_source_free (trace st)"
    by (rule selection_loop_no_source_free)
next
  assume "source st = Some old"
  then show "filter is_source_free (imv_free st) =
      filter is_source_free (trace st) @ [SourceFree old]"
    by (simp add: imv_free_def split: option.splits)
qed

theorem superseded_source_freed_on_detached_thread_witness:
  "source two_images_loaded = Some \<lparr>source_id = 9, load_next_frame = False\<rparr>
   \<and> imv_navigator_selection (navigator two_images_loaded) \<noteq> []
   \<and> backend_loop (backends two_images_loaded)
        (imv_navigator_selection (navigator two_images_loaded) = ''-'')
        (imv_navigator_selection (navigator two_images_loaded))
        (stdin_image_data two_images_loaded) BACKEND_UNSUPPORTED None
      = (BACKEND_SUCCESS, Some \<lparr>source_id = 5, load_next_frame = False\<rparr>,
         [OpenPath ''B'' ''a.png''])
   \<and> trace (load_selection two_images_loaded) =
        [OpenPath ''B'' ''a.png'',
         AsyncFreeSource \<lparr>source_id = 9, load_next_frame = False\<rparr>,
         AsyncLoadFirstFrame \<lparr>source_id = 5, load_next_frame = False\<rparr>]
   \<and> map_option trace (selection_loop two_images_loaded) =
        Some [OpenPath ''B'' ''a.png'',
              AsyncFreeSource \<lparr>source_id = 9, load_next_frame = False\<rparr>,
              AsyncLoadFirstFrame \<lparr>source_id = 5, load_next_frame = False\<rparr>]
   \<and> filter is_source_free (imv_free two_images_loaded) =
        [SourceFree \<lparr>source_id = 9, load_next_frame = False\<rparr>]"
  using superseded_source_freed_on_detached_thread
    [of two_images_loaded "\<lparr>source_id = 9, load_next_frame = False\<rparr>"
        "\<lparr>source_id = 5, load_next_frame = False\<rparr>" "[OpenPath ''B'' ''a.png'']"
        "two_images_loaded
          \<lparr>navigator := (navigator two_images_loaded)\<lparr>changed := False\<rparr>,
           source := Some \<lparr>source_id = 5, load_next_frame = False\<rparr>,
           loading := True, view_playing := True,
           trace := [OpenPath ''B'' ''a.png'',
                     AsyncFreeSource \<lparr>source_id = 9, load_next_frame = False\<rparr>,
                     AsyncLoadFirstFrame \<lparr>source_id = 5, load_next_frame = False\<rparr>]\<rparr>"]
  by (simp add: two_images_loaded_reload) (simp add: example_defs)

text \<open>
  On shutdown the teardown is not asynchronous: \<^verbatim>\<open>imv_free\<close> calls the \<^verbatim>\<open>free\<close> of the current
  source itself and starts no thread for it.
\<close>

theorem shutdown_frees_source_synchronously:
  "imv_free (imv_create\<lparr>source := Some \<lparr>source_id = 1, load_next_frame = False\<rparr>\<rparr>)
     = [SourceFree \<lparr>source_id = 1, load_next_frame = False\<rparr>]
   \<and> AsyncFreeSource \<lparr>source_id = 1, load_next_frame = False\<rparr>
       \<notin> set (imv_free (imv_create\<lparr>source := Some \<lparr>source_id = 1, load_next_frame = False\<rparr>\<rparr>))"
  by (simp add: imv_free_def imv_create_def)

text \<open>
  C5 (the code at a failing input). The viewer shows \<open>a.png\<close> of the two paths
  \<open>a.png\<close>, \<open>b.png\<close>; the slideshow timer moves the selection to \<open>b.png\<close>; before the
  selection loop runs again the source of \<open>a.png\<close>, still current, reports a failure.
  \<^verbatim>\<open>handle_event\<close> removes the selected \<open>b.png\<close>, \<open>a.png\<close> stays in the Navigator and is
  opened a second time.
\<close>

theorem decode_failure_removes_current_selection:
  "Option.bind (selection_loop two_images)
     (\<lambda>st1. Option.bind
        (selection_loop
           (poll_events 2000
              (source_callback
                 \<lparr>msg_source = \<lparr>source_id = 5, load_next_frame = False\<rparr>,
                  msg_bitmap = None, msg_frametime = 0\<rparr>
                 (slideshow_step 1000 0 st1))))
        (\<lambda>st2. Some (source st1, paths (navigator st2), trace st2)))
   = Some (Some \<lparr>source_id = 5, load_next_frame = False\<rparr>,
           [''a.png''],
           [OpenPath ''B'' ''a.png'',
            AsyncLoadFirstFrame \<lparr>source_id = 5, load_next_frame = False\<rparr>,
            OpenPath ''B'' ''a.png'',
            AsyncFreeSource \<lparr>source_id = 5, load_next_frame = False\<rparr>,
            AsyncLoadFirstFrame \<lparr>source_id = 5, load_next_frame = False\<rparr>])"
  apply (simp add: two_images_first_load)
  apply (subst selection_loop_step)
   apply (simp add: example_defs)
  apply (subst selection_loop_idle)
   apply (simp add: example_defs)
  apply (simp add: example_defs)
  done

text \<open>
  C6 (the code at a failing input). A first frame of 5000 ms is shown at tick 2000 while
  a slideshow of 1000 ms per image runs: the wait of that iteration gets 5000 ms, not the
  smaller of 1000 ms and the time left. And when the clock has wrapped since the frame was
  scheduled, the 32 bits handed to the wait read as a negative number.
\<close>

theorem wait_timeout_exceeds_ceiling:
  "view_playing (handle_new_image 2000 \<lparr>bitmap_id = 1, width = 8, height = 8\<rparr> 5000
                  (imv_create\<lparr>view_playing := True, slideshow_image_duration := 1000\<rparr>))
   \<and> next_frame_due (handle_new_image 2000 \<lparr>bitmap_id = 1, width = 8, height = 8\<rparr> 5000
                  (imv_create\<lparr>view_playing := True, slideshow_image_duration := 1000\<rparr>)) = 7000
   \<and> wait_timeout 2000
        (handle_new_image 2000 \<lparr>bitmap_id = 1, width = 8, height = 8\<rparr> 5000
           (imv_create\<lparr>view_playing := True, slideshow_image_duration := 1000\<rparr>)) = 5000
   \<and> wait_timeout 2000
        (handle_new_image 2000 \<lparr>bitmap_id = 1, width = 8, height = 8\<rparr> 5000
           (imv_create\<lparr>view_playing := True, slideshow_image_duration := 1000\<rparr>))
      \<noteq> min 1000 (7000 - 2000)
   \<and> next_frame_due (handle_new_image 4294967146 \<lparr>bitmap_id = 1, width = 8, height = 8\<rparr> 100
                  (imv_create\<lparr>view_playing := True\<rparr>)) = 4294967246
   \<and> wait_timeout 5
        (handle_new_image 4294967146 \<lparr>bitmap_id = 1, width = 8, height = 8\<rparr> 100
           (imv_create\<lparr>view_playing := True\<rparr>)) = - 55"
  by (simp add: wait_timeout_def handle_new_image_def imv_bitmap_free_def imv_create_def Let_def)

text \<open>
  C7. After the events are handled the run loop is left exactly when the viewer is
  quitting, or looping is disabled and the Navigator has wrapped, or paths are not read
  from stdin and the Navigator is empty. While paths are read from stdin the length of
  the Navigator plays no part: the loop goes on, also with an empty Navigator, unless
  one of the other two conditions holds.
\<close>

theorem run_loop_exit_policy:
  "run_loop_exits st =
     (quit st
      \<or> (\<not> loop_input st \<and> imv_navigator_wrapped (navigator st))
      \<or> (\<not> paths_from_stdin st \<and> imv_navigator_length (navigator st) = 0))
   \<and> (paths_from_stdin st \<longrightarrow>
        run_loop_exits st =
          (quit st \<or> (\<not> loop_input st \<and> imv_navigator_wrapped (navigator st))))
   \<and> (paths_from_stdin st \<and> imv_navigator_length (navigator st) = 0 \<and> \<not> quit st
        \<and> (loop_input st \<or> \<not> imv_navigator_wrapped (navigator st)) \<longrightarrow>
        \<not> run_loop_exits st \<and> fst (check_termination st) = Proceed)"
  by (auto simp add: run_loop_exits_def check_termination_def)

theorem run_loop_exit_policy_witness:
  "paths_from_stdin (imv_create\<lparr>paths_from_stdin := True\<rparr>)
   \<and> imv_navigator_length (navigator (imv_create\<lparr>paths_from_stdin := True\<rparr>)) = 0
   \<and> \<not> quit (imv_create\<lparr>paths_from_stdin := True\<rparr>)
   \<and> loop_input (imv_create\<lparr>paths_from_stdin := True\<rparr>)
   \<and> \<not> run_loop_exits (imv_create\<lparr>paths_from_stdin := True\<rparr>)
   \<and> run_loop_exits imv_create
   \<and> run_loop_exits
       (imv_create\<lparr>paths_from_stdin := True, loop_input := False,
          navigator := imv_navigator_create\<lparr>wrapped := True\<rparr>\<rparr>)"
  using run_loop_exit_policy [of "imv_create\<lparr>paths_from_stdin := True\<rparr>"]
    run_loop_exit_policy [of imv_create]
    run_loop_exit_policy [of "imv_create\<lparr>paths_from_stdin := True, loop_input := False,
          navigator := imv_navigator_create\<lparr>wrapped := True\<rparr>\<rparr>"]
  by (simp add: imv_create_def imv_navigator_create_def imv_navigator_length_def
      imv_navigator_wrapped_def)

text \<open>
  C8 (the code at a failing input). An animated image whose first frame lasts 100 ms is
  loaded when \<^verbatim>\<open>SDL_GetTicks()\<close> is \<open>2 ^ 32 - 100\<close>: the sum wraps and \<open>next_frame_due\<close> is
  set to zero although a frame is scheduled, so the prefetched frame is due at no time.
\<close>

theorem scheduled_frame_due_wraps_to_zero:
  "next_frame_due
     (handle_new_image 4294967196 \<lparr>bitmap_id = 1, width = 8, height = 8\<rparr> 100
        (imv_create\<lparr>source := Some \<lparr>source_id = 1, load_next_frame = True\<rparr>,
                    view_playing := True\<rparr>)) = 0
   \<and> trace
     (handle_new_image 4294967196 \<lparr>bitmap_id = 1, width = 8, height = 8\<rparr> 100
        (imv_create\<lparr>source := Some \<lparr>source_id = 1, load_next_frame = True\<rparr>,
                    view_playing := True\<rparr>))
     = [BitmapFree \<lparr>bitmap_id = 1, width = 8, height = 8\<rparr>,
        AsyncLoadNextFrame \<lparr>source_id = 1, load_next_frame = True\<rparr>]
   \<and> (\<forall>t. \<not> frame_due t
        (handle_new_frame \<lparr>bitmap_id = 2, width = 8, height = 8\<rparr> 100
           (handle_new_image 4294967196 \<lparr>bitmap_id = 1, width = 8, height = 8\<rparr> 100
              (imv_create\<lparr>source := Some \<lparr>source_id = 1, load_next_frame = True\<rparr>,
                          view_playing := True\<rparr>))))"
  by (simp add: handle_new_image_def handle_new_frame_def frame_due_def imv_bitmap_free_def
      async_load_next_frame_def imv_create_def Let_def)

text \<open>
  C9 (as amended). For a duration \<open>d\<close> and an argument \<open>n\<close> whose product \<open>1000 * n\<close> fits a
  \<^verbatim>\<open>long\<close>, the command yields 0 when \<open>1000 * n\<close> is negative and larger in magnitude than
  \<open>d\<close>, and \<open>d + 1000 * n\<close> reduced modulo \<open>2 ^ 64\<close> otherwise. The result is exactly
  \<open>d + 1000 * n\<close>, cut off at zero, whenever \<open>n\<close> is negative or the sum is below \<open>2 ^ 64\<close>:
  the duration never wraps below zero.
\<close>

theorem slideshow_duration_saturates_at_zero:
  assumes "length args = 2"
    and "- (2 ^ 63) < 1000 * sint (strtol (args ! 1))"
    and "1000 * sint (strtol (args ! 1)) < 2 ^ 63"
  shows "uint (slideshow_image_duration (command_set_slideshow_duration strtol args st)) =
           (if 1000 * sint (strtol (args ! 1)) < 0
               \<and> uint (slideshow_image_duration st) < \<bar>1000 * sint (strtol (args ! 1))\<bar>
            then 0
            else (uint (slideshow_image_duration st) + 1000 * sint (strtol (args ! 1)))
                   mod 2 ^ 64)
         \<and> (1000 * sint (strtol (args ! 1)) < 0
              \<or> uint (slideshow_image_duration st) + 1000 * sint (strtol (args ! 1)) < 2 ^ 64
             \<longrightarrow>
             uint (slideshow_image_duration (command_set_slideshow_duration strtol args st)) =
               max 0 (uint (slideshow_image_duration st) + 1000 * sint (strtol (args ! 1))))"
proof -
  let ?d = "uint (slideshow_image_duration st)"
  let ?k = "1000 * sint (strtol (args ! 1))"
  let ?new = "uint (slideshow_image_duration (command_set_slideshow_duration strtol args st))"
  have r: "?new = (if ?k < 0 \<and> ?d < \<bar>?k\<bar> then 0 else (?d + ?k) mod 2 ^ 64)"
    using assms by (rule slideshow_duration_result)
  have d0: "0 \<le> ?d" by simp
  have d1: "?d < 2 ^ 64" using uint_lt2p [of "slideshow_image_duration st"] by simp
  have "?new = max 0 (?d + ?k)" if c: "?k < 0 \<or> ?d + ?k < 2 ^ 64"
  proof (cases "?k < 0 \<and> ?d < \<bar>?k\<bar>")
    case True
    from r have new0: "?new = 0" unfolding if_P [OF True] .
    from True have "?d + ?k < 0" by linarith
    then have "max 0 (?d + ?k) = 0" by (simp add: max_def)
    with new0 show ?thesis by (simp only:)
  next
    case False
    from r have new1: "?new = (?d + ?k) mod 2 ^ 64" unfolding if_not_P [OF False] .
    from False have nonneg: "0 \<le> ?d + ?k" using d0 by linarith
    from c d1 have "?d + ?k < 2 ^ 64" by linarith
    with nonneg have "(?d + ?k) mod 2 ^ 64 = ?d + ?k" by (rule mod_pos_pos_trivial)
    moreover from nonneg have "max 0 (?d + ?k) = ?d + ?k" by (simp add: max_def)
    ultimately show ?thesis using new1 by (simp only:)
  qed
  with r show ?thesis by blast
qed

theorem slideshow_duration_saturates_at_zero_witness:
  "length [''slideshow_duration'', ''-1''] = 2
   \<and> - (2 ^ 63) < 1000 * sint ((\<lambda>a. - 1 :: 64 word) ([''slideshow_duration'', ''-1''] ! 1))
   \<and> 1000 * sint ((\<lambda>a. - 1 :: 64 word) ([''slideshow_duration'', ''-1''] ! 1)) < 2 ^ 63
   \<and> uint (slideshow_image_duration
        (command_set_slideshow_duration (\<lambda>a. - 1) [''slideshow_duration'', ''-1'']
           (imv_create\<lparr>slideshow_image_duration := 500\<rparr>))) = 0
   \<and> uint (slideshow_image_duration
        (command_set_slideshow_duration (\<lambda>a. - 1) [''slideshow_duration'', ''-1'']
           (imv_create\<lparr>slideshow_image_duration := 3000\<rparr>))) = 2000"
  using slideshow_duration_saturates_at_zero
    [of "[''slideshow_duration'', ''-1'']" "\<lambda>a. - 1" "imv_create\<lparr>slideshow_image_duration := 500\<rparr>"]
    slideshow_duration_saturates_at_zero
    [of "[''slideshow_duration'', ''-1'']" "\<lambda>a. - 1" "imv_create\<lparr>slideshow_image_duration := 3000\<rparr>"]
  by (simp add: imv_create_def)

text \<open>
  Above, the addition wraps: a duration of 18446744073709551000 ms raised by one second
  becomes 384 ms.
\<close>

theorem slideshow_duration_wraps_above:
  "uint (slideshow_image_duration
      (command_set_slideshow_duration (\<lambda>a. 1) [''slideshow_duration'', ''+1'']
         (imv_create\<lparr>slideshow_image_duration := 18446744073709551000\<rparr>))) = 384
   \<and> uint (slideshow_image_duration
      (command_set_slideshow_duration (\<lambda>a. 1) [''slideshow_duration'', ''+1'']
         (imv_create\<lparr>slideshow_image_duration := 18446744073709551000\<rparr>)))
     \<noteq> uint (18446744073709551000 :: 64 word) + 1000 * sint (1 :: 64 word)"
  by (simp add: command_set_slideshow_duration_def labs_def imv_create_def)

text \<open>
  C10. \<open>scaling_mode next\<close> moves the mode one step round the cycle none, shrink to fit,
  scale to fit, so three applications give back the mode they started from;
  \<open>none\<close>, \<open>shrink\<close> and \<open>full\<close> set the mode named; any other argument leaves the whole
  state, mode and dirty flags included, as it was.
\<close>

theorem scaling_mode_command:
  "(length args = 2 \<and> args ! 1 = ''next'' \<longrightarrow>
      scaling_mode (command_set_scaling_mode args st) =
        scaling_mode_of_value ((scaling_mode_value (scaling_mode st) + 1) mod 3)
      \<and> scaling_mode (command_set_scaling_mode args st) =
        (case scaling_mode st of SCALING_NONE \<Rightarrow> SCALING_DOWN
         | SCALING_DOWN \<Rightarrow> SCALING_FULL | SCALING_FULL \<Rightarrow> SCALING_NONE)
      \<and> scaling_mode
          (command_set_scaling_mode args
             (command_set_scaling_mode args (command_set_scaling_mode args st)))
        = scaling_mode st)
   \<and> (length args = 2 \<and> args ! 1 = ''none'' \<longrightarrow>
        scaling_mode (command_set_scaling_mode args st) = SCALING_NONE)
   \<and> (length args = 2 \<and> args ! 1 = ''shrink'' \<longrightarrow>
        scaling_mode (command_set_scaling_mode args st) = SCALING_DOWN)
   \<and> (length args = 2 \<and> args ! 1 = ''full'' \<longrightarrow>
        scaling_mode (command_set_scaling_mode args st) = SCALING_FULL)
   \<and> (length args = 2 \<and> args ! 1 \<in> {''next'', ''none'', ''shrink'', ''full''} \<longrightarrow>
        need_rescale (command_set_scaling_mode args st)
        \<and> need_redraw (command_set_scaling_mode args st))
   \<and> (length args = 2 \<and> args ! 1 \<notin> {''next'', ''none'', ''shrink'', ''full''} \<longrightarrow>
        command_set_scaling_mode args st = st)"
  by (cases "scaling_mode st")
     (auto simp add: command_set_scaling_mode_def scaling_mode_of_value_def
        SCALING_MODE_COUNT_def)

theorem scaling_mode_command_witness:
  "length [''scaling_mode'', ''next''] = 2 \<and> [''scaling_mode'', ''next''] ! 1 = ''next''
   \<and> scaling_mode (command_set_scaling_mode [''scaling_mode'', ''next''] imv_create)
       = SCALING_NONE
   \<and> scaling_mode
       (command_set_scaling_mode [''scaling_mode'', ''next'']
          (command_set_scaling_mode [''scaling_mode'', ''next'']
             (command_set_scaling_mode [''scaling_mode'', ''next''] imv_create)))
       = SCALING_FULL
   \<and> [''scaling_mode'', ''bogus''] ! 1 \<notin> {''next'', ''none'', ''shrink'', ''full''}
   \<and> command_set_scaling_mode [''scaling_mode'', ''bogus'']
        (imv_create\<lparr>need_redraw := False, need_rescale := False\<rparr>)
       = imv_create\<lparr>need_redraw := False, need_rescale := False\<rparr>
   \<and> scaling_mode (command_set_scaling_mode [''scaling_mode'', ''shrink''] imv_create)
       = SCALING_DOWN"
  using scaling_mode_command [of "[''scaling_mode'', ''next'']" imv_create]
    scaling_mode_command [of "[''scaling_mode'', ''bogus'']"
      "imv_create\<lparr>need_redraw := False, need_rescale := False\<rparr>"]
    scaling_mode_command [of "[''scaling_mode'', ''shrink'']" imv_create]
  by (simp add: imv_create_def scaling_mode_of_value_def)

end
